theory Spec2Isabelle
  imports Complex_Main
begin

section \<open>The class CanvasNode of 108.5-getters.solution.ts\<close>

text \<open>
  The source is one TypeScript class and two tests:
  \<^verbatim>\<open>
  class CanvasNode {
    x;
    y;

    constructor(position?: { x: number; y: number }) {
      this.x = position?.x ?? 0;
      this.y = position?.y ?? 0;
    }

    get position() {
      return {
        x: this.x,
        y: this.y,
      };
    }

    move(x: number, y: number) {
      this.x = x;
      this.y = y;
    }
  }
  \<close>
  The class does no arithmetic: it stores values, reads them back and allocates objects.
  What matters is which values exist, where objects live and who holds a reference to
  them, so the model has the values of the language, an explicit store of objects, and
  the three members of the class as functions that take the store and return it updated.
\<close>

subsection \<open>Values\<close>

text \<open>
  A value of the type \<open>number\<close> is an IEEE double: a finite value, the negative zero,
  one of the two infinities, or NaN. The finite values are rationals here (every finite
  double is one); no member of the class computes with them, so nothing depends on
  rounding. NaN is a single value of the model: two stored NaN are equal as stored
  values, which is how a test compares them.
\<close>

datatype number = Finite rat | NegZero | Infinity | NegInfinity | NaN

text \<open>\<open>Number.isFinite\<close>.\<close>

fun isFinite :: "number \<Rightarrow> bool" where
  "isFinite (Finite _) = True"
| "isFinite NegZero = True"
| "isFinite Infinity = False"
| "isFinite NegInfinity = False"
| "isFinite NaN = False"

type_synonym addr = nat

text \<open>
  The values a variable or a property can hold in this program: \<open>undefined\<close>,
  \<open>null\<close>, a number, or a reference to an object of the store.
\<close>

datatype val = Undefined | Null | Number number | Ref addr

text \<open>The operators \<open>?.\<close> and \<open>??\<close> treat \<open>undefined\<close> and \<open>null\<close> alike.\<close>

fun nullish :: "val \<Rightarrow> bool" where
  "nullish Undefined = True"
| "nullish Null = True"
| "nullish (Number _) = False"
| "nullish (Ref _) = False"

fun is_number :: "val \<Rightarrow> bool" where
  "is_number (Number _) = True"
| "is_number Undefined = False"
| "is_number Null = False"
| "is_number (Ref _) = False"

subsection \<open>Objects and the store\<close>

text \<open>
  An object is a finite map from property names to values. The store is the list of the
  objects allocated so far; a reference is an index into it, and allocation appends, so a
  new object never shares its address with an older one.
\<close>

type_synonym obj = "string \<rightharpoonup> val"

type_synonym heap = "obj list"

text \<open>
  \<open>TypeError\<close> is what a property access on \<open>undefined\<close> or \<open>null\<close> throws, and
  \<open>ReferenceError\<close> what the use of a variable that was never declared throws. No
  program can hold an address that was never allocated; the model answers
  \<open>DanglingRef\<close> there instead of reading outside the list.
\<close>

datatype error = TypeError | ReferenceError | DanglingRef

definition and_then :: "error + 'a \<Rightarrow> ('a \<Rightarrow> error + 'b) \<Rightarrow> error + 'b" where
  "and_then r f = (case r of Inl e \<Rightarrow> Inl e | Inr v \<Rightarrow> f v)"

definition alloc :: "heap \<Rightarrow> obj \<Rightarrow> addr \<times> heap" where
  "alloc h ob = (length h, h @ [ob])"

text \<open>Reading a property an object does not have gives \<open>undefined\<close>.\<close>

definition read_prop :: "obj \<Rightarrow> string \<Rightarrow> val" where
  "read_prop ob k = (case ob k of None \<Rightarrow> Undefined | Some v \<Rightarrow> v)"

text \<open>The object at an address.\<close>

definition deref :: "heap \<Rightarrow> addr \<Rightarrow> error + obj" where
  "deref h a = (if a < length h then Inr (h ! a) else Inl DanglingRef)"

text \<open>\<open>this.k\<close>, where \<open>this\<close> is the address of an object.\<close>

definition get_field :: "heap \<Rightarrow> addr \<Rightarrow> string \<Rightarrow> error + val" where
  "get_field h a k = and_then (deref h a) (\<lambda>ob. Inr (read_prop ob k))"

text \<open>\<open>this.k = v\<close>.\<close>

definition set_field :: "heap \<Rightarrow> addr \<Rightarrow> string \<Rightarrow> val \<Rightarrow> error + heap" where
  "set_field h a k v =
     (if a < length h then Inr (h[a := (h ! a)(k \<mapsto> v)]) else Inl DanglingRef)"

text \<open>
  \<open>v.k\<close> for an arbitrary value \<open>v\<close>: it throws on \<open>undefined\<close> and \<open>null\<close>, and a
  number has no property \<open>x\<close> or \<open>y\<close>.
\<close>

fun get_member :: "heap \<Rightarrow> val \<Rightarrow> string \<Rightarrow> error + val" where
  "get_member h Undefined k = Inl TypeError"
| "get_member h Null k = Inl TypeError"
| "get_member h (Number n) k = Inr Undefined"
| "get_member h (Ref a) k = get_field h a k"

text \<open>\<open>v?.k\<close>: \<open>undefined\<close> when \<open>v\<close> is nullish, \<open>v.k\<close> otherwise.\<close>

definition opt_member :: "heap \<Rightarrow> val \<Rightarrow> string \<Rightarrow> error + val" where
  "opt_member h v k = (if nullish v then Inr Undefined else get_member h v k)"

text \<open>\<open>a ?? b\<close>.\<close>

definition nullish_coalesce :: "val \<Rightarrow> val \<Rightarrow> val" where
  "nullish_coalesce a b = (if nullish a then b else a)"

subsection \<open>The members of the class\<close>

text \<open>
  \<open>new CanvasNode(position)\<close>: a new object with the declared fields \<open>x\<close> and \<open>y\<close>,
  then the two assignments of the constructor, in the order of the source. The result
  is the address of the node and the store that holds it.
\<close>

definition CanvasNode_new :: "heap \<Rightarrow> val \<Rightarrow> error + (addr \<times> heap)" where
  "CanvasNode_new h position =
     (let (this, h0) = alloc h [''x'' \<mapsto> Undefined, ''y'' \<mapsto> Undefined] in
      and_then (opt_member h0 position ''x'') (\<lambda>px.
      and_then (set_field h0 this ''x'' (nullish_coalesce px (Number (Finite 0)))) (\<lambda>h1.
      and_then (opt_member h1 position ''y'') (\<lambda>py.
      and_then (set_field h1 this ''y'' (nullish_coalesce py (Number (Finite 0)))) (\<lambda>h2.
      Inr (this, h2))))))"

text \<open>
  The getter \<open>position\<close>: it reads both fields and allocates the object literal
  \<open>{ x: this.x, y: this.y }\<close>; the result is the address of that literal.
\<close>

definition CanvasNode_position :: "heap \<Rightarrow> addr \<Rightarrow> error + (addr \<times> heap)" where
  "CanvasNode_position h this =
     and_then (get_field h this ''x'') (\<lambda>vx.
     and_then (get_field h this ''y'') (\<lambda>vy.
     Inr (alloc h [''x'' \<mapsto> vx, ''y'' \<mapsto> vy])))"

text \<open>\<open>move(x, y)\<close>: the two assignments, in the order of the source.\<close>

definition CanvasNode_move :: "heap \<Rightarrow> addr \<Rightarrow> val \<Rightarrow> val \<Rightarrow> error + heap" where
  "CanvasNode_move h this x y =
     and_then (set_field h this ''x'' x) (\<lambda>h1. set_field h1 this ''y'' y)"

subsection \<open>What a test observes\<close>

text \<open>
  \<open>expect(node.position).toEqual(...)\<close> runs the getter and compares the object it
  returns by value: \<open>position_value\<close> is that object.
\<close>

definition position_value :: "heap \<Rightarrow> addr \<Rightarrow> error + obj" where
  "position_value h this =
     and_then (CanvasNode_position h this) (\<lambda>(s, h'). deref h' s)"

text \<open>The object \<open>{ x: a, y: b }\<close> with two numbers.\<close>

definition point :: "number \<Rightarrow> number \<Rightarrow> obj" where
  "point a b = [''x'' \<mapsto> Number a, ''y'' \<mapsto> Number b]"

text \<open>
  The declared type of the constructor's parameter, \<open>position?: { x: number; y: number }\<close>:
  the argument is left out, or it is an object that has a number at \<open>x\<close> and a number
  at \<open>y\<close>.
\<close>

definition well_typed_position :: "heap \<Rightarrow> val \<Rightarrow> bool" where
  "well_typed_position h position =
     (case position of
        Undefined \<Rightarrow> True
      | Null \<Rightarrow> False
      | Number n \<Rightarrow> False
      | Ref a \<Rightarrow> a < length h \<and> is_number (read_prop (h ! a) ''x'')
                            \<and> is_number (read_prop (h ! a) ''y''))"

subsection \<open>The invariant of the data model\<close>

text \<open>
  The data model asks that \<open>x\<close> and \<open>y\<close> are always finite numbers:
  \<open>finite_fields h this\<close> says so of the node at \<open>this\<close>.
\<close>

fun finite_number :: "val \<Rightarrow> bool" where
  "finite_number (Number n) = isFinite n"
| "finite_number Undefined = False"
| "finite_number Null = False"
| "finite_number (Ref _) = False"

definition finite_fields :: "heap \<Rightarrow> addr \<Rightarrow> bool" where
  "finite_fields h this =
     (this < length h \<and> finite_number (read_prop (h ! this) ''x'')
                      \<and> finite_number (read_prop (h ! this) ''y''))"

subsection \<open>Programs over the class\<close>

text \<open>
  A client of the class, such as the tests of the source, is a sequence of statements:
  \<open>const n = new CanvasNode()\<close> or \<open>const n = new CanvasNode({ x: a, y: b })\<close>, which
  binds the next variable to the new node, \<open>n.move(a, b)\<close>, and \<open>n.position\<close>, whose
  result the client observes by value. Variables are numbered in the order of their
  declarations. The inputs of a program are the numbers written in it; the store it
  happens to run in is not one of them.
\<close>

datatype stmt = New "(number \<times> number) option" | Move nat number number | Query nat

text \<open>
  One statement, run in the store \<open>h\<close> with the variables bound to the addresses
  \<open>nodes\<close>: it returns what the client observes (the value of a query, nothing
  otherwise), the new store and the new bindings. A configuration is an object literal:
  the caller allocates it and passes its address.
\<close>

fun step :: "heap \<Rightarrow> addr list \<Rightarrow> stmt \<Rightarrow> error + (obj list \<times> heap \<times> addr list)" where
  "step h nodes (New None) =
     and_then (CanvasNode_new h Undefined) (\<lambda>(node, h'). Inr ([], h', nodes @ [node]))"
| "step h nodes (New (Some (a, b))) =
     (let (c, h0) = alloc h (point a b) in
      and_then (CanvasNode_new h0 (Ref c)) (\<lambda>(node, h'). Inr ([], h', nodes @ [node])))"
| "step h nodes (Move i a b) =
     (if i < length nodes
      then and_then (CanvasNode_move h (nodes ! i) (Number a) (Number b))
             (\<lambda>h'. Inr ([], h', nodes))
      else Inl ReferenceError)"
| "step h nodes (Query i) =
     (if i < length nodes
      then and_then (CanvasNode_position h (nodes ! i)) (\<lambda>(s, h').
           and_then (deref h' s) (\<lambda>ob. Inr ([ob], h', nodes)))
      else Inl ReferenceError)"

text \<open>A program stops at the first statement that throws.\<close>

fun run :: "heap \<Rightarrow> addr list \<Rightarrow> stmt list \<Rightarrow> error + (obj list \<times> heap \<times> addr list)" where
  "run h nodes [] = Inr ([], h, nodes)"
| "run h nodes (st # prog) =
     and_then (step h nodes st) (\<lambda>(obs, h', nodes').
     and_then (run h' nodes' prog) (\<lambda>(obs', h'', nodes'').
     Inr (obs @ obs', h'', nodes'')))"

text \<open>
  A program that compiles uses only variables declared before: \<open>well_scoped n prog\<close>,
  with \<open>n\<close> the number of variables declared so far.
\<close>

fun well_scoped :: "nat \<Rightarrow> stmt list \<Rightarrow> bool" where
  "well_scoped n [] = True"
| "well_scoped n (New cfg # prog) = well_scoped (Suc n) prog"
| "well_scoped n (Move i a b # prog) = (i < n \<and> well_scoped n prog)"
| "well_scoped n (Query i # prog) = (i < n \<and> well_scoped n prog)"

text \<open>The states of the nodes a program has built, by value, in the order of the variables.\<close>

definition node_states :: "heap \<Rightarrow> addr list \<Rightarrow> (error + obj) list" where
  "node_states h nodes = map (deref h) nodes"

text \<open>
  The bindings of a running program: every variable holds an address of the store, and
  no two variables hold the same one.
\<close>

definition nodes_ok :: "heap \<Rightarrow> addr list \<Rightarrow> bool" where
  "nodes_ok h nodes = (distinct nodes \<and> list_all (\<lambda>n. n < length h) nodes)"

text \<open>
  The same statements read on the values of the nodes alone, with no store and no
  addresses: a construction appends \<open>{ x: 0, y: 0 }\<close> or \<open>{ x: a, y: b }\<close>, a move
  overwrites \<open>x\<close> and \<open>y\<close> of one value, a query observes \<open>{ x, y }\<close> of one value.
  This is what the runs of a program in two stores are compared through.
\<close>

fun value_step :: "obj list \<Rightarrow> stmt \<Rightarrow> obj list \<times> obj list" where
  "value_step vs (New None) = ([], vs @ [point (Finite 0) (Finite 0)])"
| "value_step vs (New (Some (a, b))) = ([], vs @ [point a b])"
| "value_step vs (Move i a b) =
     ([], vs[i := (vs ! i)(''x'' \<mapsto> Number a, ''y'' \<mapsto> Number b)])"
| "value_step vs (Query i) =
     ([[''x'' \<mapsto> read_prop (vs ! i) ''x'', ''y'' \<mapsto> read_prop (vs ! i) ''y'']], vs)"

fun value_run :: "obj list \<Rightarrow> stmt list \<Rightarrow> obj list \<times> obj list" where
  "value_run vs [] = ([], vs)"
| "value_run vs (st # prog) =
     (let (obs, vs') = value_step vs st; (obs', vs'') = value_run vs' prog
      in (obs @ obs', vs''))"

section \<open>The members on an allocated node\<close>

text \<open>
  On an address of the store every access succeeds, and each member has a closed form:
  the facts below are what the properties of the class are proved from.
\<close>

lemma and_then_Inr [simp]: "and_then (Inr v) f = f v"
  by (simp add: and_then_def)

lemma and_then_Inl [simp]: "and_then (Inl e) f = Inl e"
  by (simp add: and_then_def)

lemma deref_allocated: "a < length h \<Longrightarrow> deref h a = Inr (h ! a)"
  by (simp add: deref_def)

lemma get_field_allocated:
  "a < length h \<Longrightarrow> get_field h a k = Inr (read_prop (h ! a) k)"
  by (simp add: get_field_def deref_allocated)

lemma set_field_allocated:
  "a < length h \<Longrightarrow> set_field h a k v = Inr (h[a := (h ! a)(k \<mapsto> v)])"
  by (simp add: set_field_def)

lemma read_prop_upd_same [simp]: "read_prop (ob(k \<mapsto> v)) k = v"
  by (simp add: read_prop_def)

lemma read_prop_upd_other [simp]: "k' \<noteq> k \<Longrightarrow> read_prop (ob(k \<mapsto> v)) k' = read_prop ob k'"
  by (simp add: read_prop_def)

lemma read_prop_point [simp]:
  "read_prop (point a b) ''x'' = Number a" "read_prop (point a b) ''y'' = Number b"
  by (simp_all add: point_def read_prop_def)

lemma CanvasNode_move_allocated:
  "this < length h \<Longrightarrow>
   CanvasNode_move h this x y = Inr (h[this := (h ! this)(''x'' \<mapsto> x, ''y'' \<mapsto> y)])"
  by (simp add: CanvasNode_move_def set_field_allocated)

lemma CanvasNode_position_allocated:
  "this < length h \<Longrightarrow>
   CanvasNode_position h this =
     Inr (length h, h @ [[''x'' \<mapsto> read_prop (h ! this) ''x'', ''y'' \<mapsto> read_prop (h ! this) ''y'']])"
  by (simp add: CanvasNode_position_def get_field_allocated alloc_def)

lemma position_value_allocated:
  "this < length h \<Longrightarrow>
   position_value h this =
     Inr [''x'' \<mapsto> read_prop (h ! this) ''x'', ''y'' \<mapsto> read_prop (h ! this) ''y'']"
  by (simp add: position_value_def CanvasNode_position_allocated deref_def)

lemma CanvasNode_new_Undefined:
  "CanvasNode_new h Undefined = Inr (length h, h @ [point (Finite 0) (Finite 0)])"
  by (simp add: CanvasNode_new_def alloc_def opt_member_def nullish_coalesce_def
      set_field_def point_def)

lemma CanvasNode_new_Ref:
  "c < length h \<Longrightarrow>
   CanvasNode_new h (Ref c) =
     Inr (length h,
          h @ [[''x'' \<mapsto> nullish_coalesce (read_prop (h ! c) ''x'') (Number (Finite 0)),
                ''y'' \<mapsto> nullish_coalesce (read_prop (h ! c) ''y'') (Number (Finite 0))]])"
  by (simp add: CanvasNode_new_def alloc_def opt_member_def get_field_def deref_def
      set_field_def nth_append)

text \<open>The two shapes of a well-typed argument of the constructor.\<close>

lemma well_typed_position_cases:
  assumes "well_typed_position h position"
  obtains (absent) "position = Undefined"
  | (supplied) c a b where "position = Ref c" "c < length h"
      "read_prop (h ! c) ''x'' = Number a" "read_prop (h ! c) ''y'' = Number b"
proof (cases position)
  case (Ref c)
  with assms have c: "c < length h" and nx: "is_number (read_prop (h ! c) ''x'')"
    and ny: "is_number (read_prop (h ! c) ''y'')"
    by (simp_all add: well_typed_position_def)
  from nx obtain a where "read_prop (h ! c) ''x'' = Number a"
    by (cases "read_prop (h ! c) ''x''") simp_all
  moreover from ny obtain b where "read_prop (h ! c) ''y'' = Number b"
    by (cases "read_prop (h ! c) ''y''") simp_all
  ultimately show ?thesis
    using Ref c supplied by blast
qed (use assms absent in \<open>simp_all add: well_typed_position_def\<close>)

text \<open>The position query on the object allocated last.\<close>

lemma position_value_new_node:
  "position_value (h @ [ob]) (length h) = Inr [''x'' \<mapsto> read_prop ob ''x'', ''y'' \<mapsto> read_prop ob ''y'']"
  by (simp add: position_value_allocated)

lemma CanvasNode_new_supplied:
  assumes "c < length h"
    and "read_prop (h ! c) ''x'' = Number a" and "read_prop (h ! c) ''y'' = Number b"
  shows "CanvasNode_new h (Ref c) = Inr (length h, h @ [point a b])"
  using assms by (simp add: CanvasNode_new_Ref nullish_coalesce_def point_def)

lemma point_overwritten: "(point a b)(''x'' \<mapsto> Number a', ''y'' \<mapsto> Number b') = point a' b'"
  by (simp add: point_def)

text \<open>The members on a node whose object is \<open>{ x: a, y: b }\<close>.\<close>

lemma CanvasNode_position_point:
  "this < length h \<Longrightarrow> h ! this = point a b \<Longrightarrow>
   CanvasNode_position h this = Inr (length h, h @ [point a b])"
  by (simp add: CanvasNode_position_allocated) (simp add: point_def)

lemma CanvasNode_move_point:
  "this < length h \<Longrightarrow> h ! this = point a b \<Longrightarrow>
   CanvasNode_move h this (Number a') (Number b') = Inr (h[this := point a' b'])"
  by (simp add: CanvasNode_move_allocated point_overwritten)

lemma position_value_point:
  "this < length h \<Longrightarrow> h ! this = point a b \<Longrightarrow> position_value h this = Inr (point a b)"
  by (simp add: position_value_allocated) (simp add: point_def)

subsection \<open>Programs and the values of their nodes\<close>

text \<open>
  A running program keeps its bindings valid and distinct, and each statement does to
  the objects of the nodes what \<open>value_step\<close> does to their values, whatever else the
  store holds.
\<close>

lemma nodes_okD:
  "nodes_ok h nodes \<Longrightarrow> n \<in> set nodes \<Longrightarrow> n < length h"
  by (simp add: nodes_ok_def list_all_iff)

lemma node_states_ok:
  "nodes_ok h nodes \<Longrightarrow> node_states h nodes = map Inr (map (\<lambda>n. h ! n) nodes)"
  by (simp add: node_states_def deref_def nodes_okD)

lemma nodes_ok_alloc:
  assumes "nodes_ok h nodes"
  shows "nodes_ok (h @ [ob]) (nodes @ [length h])"
    and "map (\<lambda>n. (h @ [ob]) ! n) (nodes @ [length h]) = map (\<lambda>n. h ! n) nodes @ [ob]"
    and "nodes_ok (h @ [ob]) nodes"
    and "map (\<lambda>n. (h @ [ob]) ! n) nodes = map (\<lambda>n. h ! n) nodes"
proof -
  have below: "n < length h" if "n \<in> set nodes" for n
    using assms that by (rule nodes_okD)
  then have "length h \<notin> set nodes"
    by blast
  with assms below show "nodes_ok (h @ [ob]) (nodes @ [length h])"
    by (auto simp: nodes_ok_def list_all_iff less_Suc_eq)
  from assms below show "nodes_ok (h @ [ob]) nodes"
    by (auto simp: nodes_ok_def list_all_iff less_Suc_eq)
  from below show "map (\<lambda>n. (h @ [ob]) ! n) nodes = map (\<lambda>n. h ! n) nodes"
    by (simp add: nth_append)
  then show "map (\<lambda>n. (h @ [ob]) ! n) (nodes @ [length h]) = map (\<lambda>n. h ! n) nodes @ [ob]"
    by simp
qed

lemma nodes_ok_update:
  assumes "nodes_ok h nodes" and "i < length nodes"
  shows "nodes_ok (h[nodes ! i := ob]) nodes"
    and "map (\<lambda>n. (h[nodes ! i := ob]) ! n) nodes = (map (\<lambda>n. h ! n) nodes)[i := ob]"
proof -
  from assms(1) show "nodes_ok (h[nodes ! i := ob]) nodes"
    by (simp add: nodes_ok_def)
  have dist: "distinct nodes"
    using assms(1) by (simp add: nodes_ok_def)
  show "map (\<lambda>n. (h[nodes ! i := ob]) ! n) nodes = (map (\<lambda>n. h ! n) nodes)[i := ob]"
  proof (rule nth_equalityI)
    show "length (map (\<lambda>n. (h[nodes ! i := ob]) ! n) nodes) = length ((map (\<lambda>n. h ! n) nodes)[i := ob])"
      by simp
  next
    fix j
    assume "j < length (map (\<lambda>n. (h[nodes ! i := ob]) ! n) nodes)"
    then have j: "j < length nodes"
      by simp
    then have "nodes ! j < length h"
      using assms(1) by (simp add: nodes_okD)
    moreover have "nodes ! j = nodes ! i \<longleftrightarrow> j = i"
      using dist j assms(2) by (simp add: nth_eq_iff_index_eq)
    ultimately show "map (\<lambda>n. (h[nodes ! i := ob]) ! n) nodes ! j = (map (\<lambda>n. h ! n) nodes)[i := ob] ! j"
      using j by (auto simp: nth_list_update)
  qed
qed

lemma step_simulates:
  assumes ok: "nodes_ok h nodes" and scoped: "well_scoped (length nodes) (st # prog)"
  shows "\<exists>h' nodes'. step h nodes st
            = Inr (fst (value_step (map (\<lambda>n. h ! n) nodes) st), h', nodes')
          \<and> nodes_ok h' nodes'
          \<and> map (\<lambda>n. h' ! n) nodes' = snd (value_step (map (\<lambda>n. h ! n) nodes) st)
          \<and> well_scoped (length nodes') prog"
proof (cases st)
  case (New cfg)
  show ?thesis
  proof (cases cfg)
    case None
    with New scoped nodes_ok_alloc(1,2) [OF ok, of "point (Finite 0) (Finite 0)"]
    show ?thesis
      by (simp add: CanvasNode_new_Undefined)
  next
    case (Some ab)
    obtain a b where ab: "ab = (a, b)"
      by (cases ab)
    let ?h0 = "h @ [point a b]"
    have ok0: "nodes_ok ?h0 nodes"
      and vals0: "map (\<lambda>n. ?h0 ! n) nodes = map (\<lambda>n. h ! n) nodes"
      using nodes_ok_alloc(3,4) [OF ok] by simp_all
    have built: "CanvasNode_new ?h0 (Ref (length h)) = Inr (length ?h0, ?h0 @ [point a b])"
      by (rule CanvasNode_new_supplied) simp_all
    from New Some ab scoped built nodes_ok_alloc(1,2) [OF ok0, of "point a b"] vals0
    show ?thesis
      by (simp add: alloc_def)
  qed
next
  case (Move i a b)
  with scoped have i: "i < length nodes" and rest: "well_scoped (length nodes) prog"
    by simp_all
  from ok i have "nodes ! i < length h"
    by (simp add: nodes_okD)
  with Move i rest nodes_ok_update [OF ok i] show ?thesis
    by (simp add: CanvasNode_move_allocated)
next
  case (Query i)
  with scoped have i: "i < length nodes" and rest: "well_scoped (length nodes) prog"
    by simp_all
  from ok i have "nodes ! i < length h"
    by (simp add: nodes_okD)
  with Query i rest nodes_ok_alloc(3,4) [OF ok] show ?thesis
    by (simp add: CanvasNode_position_allocated deref_def)
qed

lemma run_simulates:
  assumes "nodes_ok h nodes" and "well_scoped (length nodes) prog"
  shows "\<exists>h' nodes'. run h nodes prog
            = Inr (fst (value_run (map (\<lambda>n. h ! n) nodes) prog), h', nodes')
          \<and> nodes_ok h' nodes'
          \<and> map (\<lambda>n. h' ! n) nodes' = snd (value_run (map (\<lambda>n. h ! n) nodes) prog)"
  using assms
proof (induction prog arbitrary: h nodes)
  case Nil
  then show ?case
    by simp
next
  case (Cons st prog)
  from step_simulates [OF Cons.prems]
  obtain h1 nodes1 where
    st: "step h nodes st = Inr (fst (value_step (map (\<lambda>n. h ! n) nodes) st), h1, nodes1)"
    and ok1: "nodes_ok h1 nodes1"
    and vals1: "map (\<lambda>n. h1 ! n) nodes1 = snd (value_step (map (\<lambda>n. h ! n) nodes) st)"
    and scoped1: "well_scoped (length nodes1) prog"
    by blast
  from Cons.IH [OF ok1 scoped1]
  obtain h2 nodes2 where
    rest: "run h1 nodes1 prog = Inr (fst (value_run (map (\<lambda>n. h1 ! n) nodes1) prog), h2, nodes2)"
    and ok2: "nodes_ok h2 nodes2"
    and vals2: "map (\<lambda>n. h2 ! n) nodes2 = snd (value_run (map (\<lambda>n. h1 ! n) nodes1) prog)"
    by blast
  from st rest ok2 vals2 vals1 show ?case
    by (simp add: split_beta)
qed

section \<open>Properties of the class\<close>

subsection \<open>move\<close>

text \<open>
  C1. For every node and every pair of numbers \<open>a\<close>, \<open>b\<close>, \<open>move(a, b)\<close> succeeds
  and overwrites both fields with the supplied values, whatever they are (no bounds are
  checked and no field is left out): in the store it returns, the field \<open>x\<close> of the
  node is \<open>a\<close>, the field \<open>y\<close> is \<open>b\<close>, and the position query returns
  \<open>{ x: a, y: b }\<close>.
\<close>

theorem move_overwrites_both_fields:
  assumes "this < length h"
  shows "\<exists>h'. CanvasNode_move h this (Number a) (Number b) = Inr h'
            \<and> get_field h' this ''x'' = Inr (Number a)
            \<and> get_field h' this ''y'' = Inr (Number b)
            \<and> position_value h' this = Inr (point a b)"
proof -
  let ?h' = "h[this := (h ! this)(''x'' \<mapsto> Number a, ''y'' \<mapsto> Number b)]"
  have len: "this < length ?h'"
    using assms by simp
  have moved: "CanvasNode_move h this (Number a) (Number b) = Inr ?h'"
    using assms by (rule CanvasNode_move_allocated)
  have fx: "get_field ?h' this ''x'' = Inr (Number a)"
    using assms by (simp add: get_field_allocated)
  have fy: "get_field ?h' this ''y'' = Inr (Number b)"
    using assms by (simp add: get_field_allocated)
  have "position_value ?h' this = Inr (point a b)"
    using assms by (simp add: position_value_allocated [OF len] point_def)
  with moved fx fy show ?thesis
    by blast
qed

text \<open>
  The first test of the source: a node built without a configuration is at
  \<open>{ x: 0, y: 0 }\<close>, and after \<open>move(10, 20)\<close> it is at \<open>{ x: 10, y: 20 }\<close>.
\<close>

theorem move_overwrites_both_fields_witness:
  "CanvasNode_new [] Undefined = Inr (0, [point (Finite 0) (Finite 0)])
   \<and> (0::nat) < length [point (Finite 0) (Finite 0)]
   \<and> position_value [point (Finite 0) (Finite 0)] 0 = Inr (point (Finite 0) (Finite 0))
   \<and> (\<exists>h'. CanvasNode_move [point (Finite 0) (Finite 0)] 0 (Number (Finite 10)) (Number (Finite 20)) = Inr h'
          \<and> get_field h' 0 ''x'' = Inr (Number (Finite 10))
          \<and> get_field h' 0 ''y'' = Inr (Number (Finite 20))
          \<and> position_value h' 0 = Inr (point (Finite 10) (Finite 20)))"
proof -
  have len: "(0::nat) < length [point (Finite 0) (Finite 0)]"
    by simp
  have built: "CanvasNode_new [] Undefined = Inr (0, [point (Finite 0) (Finite 0)])"
    using CanvasNode_new_Undefined [of "[]"] by simp
  have before: "position_value [point (Finite 0) (Finite 0)] 0 = Inr (point (Finite 0) (Finite 0))"
    by (simp add: position_value_allocated point_def)
  show ?thesis
    using built len before
      move_overwrites_both_fields [OF len, of "Finite 10" "Finite 20"]
    by simp
qed

subsection \<open>The constructor\<close>

text \<open>
  C2. For every well-typed argument the constructor succeeds and initialises each field
  to the supplied value, or to 0 when no configuration is given: without a configuration
  the position query returns \<open>{ x: 0, y: 0 }\<close>, and with a configuration that holds
  the numbers \<open>a\<close> at \<open>x\<close> and \<open>b\<close> at \<open>y\<close> it returns \<open>{ x: a, y: b }\<close>.
\<close>

theorem constructor_initialises_fields:
  assumes "well_typed_position h position"
  shows "\<exists>this h'. CanvasNode_new h position = Inr (this, h')
           \<and> (position = Undefined \<longrightarrow>
                position_value h' this = Inr (point (Finite 0) (Finite 0)))
           \<and> (\<forall>c a b. position = Ref c \<and> read_prop (h ! c) ''x'' = Number a
                        \<and> read_prop (h ! c) ''y'' = Number b \<longrightarrow>
                position_value h' this = Inr (point a b))"
  using assms
proof (cases rule: well_typed_position_cases)
  case absent
  have "position_value (h @ [point (Finite 0) (Finite 0)]) (length h)
          = Inr (point (Finite 0) (Finite 0))"
    by (simp add: position_value_new_node point_def)
  with absent show ?thesis
    by (simp add: CanvasNode_new_Undefined)
next
  case (supplied c a b)
  have "position_value (h @ [point a b]) (length h) = Inr (point a b)"
    by (simp add: position_value_new_node point_def)
  with supplied show ?thesis
    by (simp add: CanvasNode_new_supplied)
qed

text \<open>
  Both constructions of the tests: \<open>new CanvasNode()\<close> is at \<open>{ x: 0, y: 0 }\<close> and
  \<open>new CanvasNode({ x: 10, y: 20 })\<close> is at \<open>{ x: 10, y: 20 }\<close>.
\<close>

theorem constructor_initialises_fields_witness:
  "well_typed_position [] Undefined
   \<and> CanvasNode_new [] Undefined = Inr (0, [point (Finite 0) (Finite 0)])
   \<and> position_value [point (Finite 0) (Finite 0)] 0 = Inr (point (Finite 0) (Finite 0))
   \<and> well_typed_position [point (Finite 10) (Finite 20)] (Ref 0)
   \<and> CanvasNode_new [point (Finite 10) (Finite 20)] (Ref 0)
        = Inr (1, [point (Finite 10) (Finite 20), point (Finite 10) (Finite 20)])
   \<and> position_value [point (Finite 10) (Finite 20), point (Finite 10) (Finite 20)] 1
        = Inr (point (Finite 10) (Finite 20))"
proof -
  have wt0: "well_typed_position [] Undefined"
    by (simp add: well_typed_position_def)
  have wt1: "well_typed_position [point (Finite 10) (Finite 20)] (Ref 0)"
    by (simp add: well_typed_position_def)
  have new0: "CanvasNode_new [] Undefined = Inr (0, [point (Finite 0) (Finite 0)])"
    using CanvasNode_new_Undefined [of "[]"] by simp
  have new1: "CanvasNode_new [point (Finite 10) (Finite 20)] (Ref 0)
        = Inr (1, [point (Finite 10) (Finite 20), point (Finite 10) (Finite 20)])"
    using CanvasNode_new_supplied [of 0 "[point (Finite 10) (Finite 20)]" "Finite 10" "Finite 20"]
    by simp
  from constructor_initialises_fields [OF wt0] new0
  have q0: "position_value [point (Finite 0) (Finite 0)] 0 = Inr (point (Finite 0) (Finite 0))"
    by simp
  from constructor_initialises_fields [OF wt1] new1
  have q1: "position_value [point (Finite 10) (Finite 20), point (Finite 10) (Finite 20)] 1
        = Inr (point (Finite 10) (Finite 20))"
    by simp
  from wt0 new0 q0 wt1 new1 q1 show ?thesis
    by blast
qed

text \<open>
  C3. The constructor reads each of the two properties with its own default, so each
  may be left out on its own: called with an object that has only \<open>x = a\<close> it
  allocates one new node, which is \<open>{ x: a, y: 0 }\<close>, and the position query returns
  \<open>{ x: a, y: 0 }\<close>; with only \<open>y = b\<close> the node and the query are \<open>{ x: 0, y: b }\<close>; and
  with an object that has neither they are \<open>{ x: 0, y: 0 }\<close>. The store is otherwise
  unchanged.
\<close>

theorem constructor_partial_configuration:
  assumes "c < length h"
  shows "((h ! c) ''x'' = Some (Number a) \<and> (h ! c) ''y'' = None \<longrightarrow>
            CanvasNode_new h (Ref c) = Inr (length h, h @ [point a (Finite 0)])
          \<and> position_value (h @ [point a (Finite 0)]) (length h) = Inr (point a (Finite 0)))
       \<and> ((h ! c) ''x'' = None \<and> (h ! c) ''y'' = Some (Number b) \<longrightarrow>
            CanvasNode_new h (Ref c) = Inr (length h, h @ [point (Finite 0) b])
          \<and> position_value (h @ [point (Finite 0) b]) (length h) = Inr (point (Finite 0) b))
       \<and> ((h ! c) ''x'' = None \<and> (h ! c) ''y'' = None \<longrightarrow>
            CanvasNode_new h (Ref c) = Inr (length h, h @ [point (Finite 0) (Finite 0)])
          \<and> position_value (h @ [point (Finite 0) (Finite 0)]) (length h)
              = Inr (point (Finite 0) (Finite 0)))"
proof -
  have query: "position_value (h @ [point p q]) (length h) = Inr (point p q)" for p q
    by (simp add: position_value_new_node point_def)
  have built: "CanvasNode_new h (Ref c)
      = Inr (length h, h @ [point (case (h ! c) ''x'' of None \<Rightarrow> Finite 0 | Some _ \<Rightarrow> p)
                                  (case (h ! c) ''y'' of None \<Rightarrow> Finite 0 | Some _ \<Rightarrow> q)])"
    if "(h ! c) ''x'' = None \<or> (h ! c) ''x'' = Some (Number p)"
      and "(h ! c) ''y'' = None \<or> (h ! c) ''y'' = Some (Number q)" for p q
    using assms that
    by (auto simp: CanvasNode_new_Ref nullish_coalesce_def point_def read_prop_def)
  show ?thesis
  proof (intro conjI impI)
    assume "(h ! c) ''x'' = Some (Number a) \<and> (h ! c) ''y'' = None"
    with built [of a "Finite 0"]
    show "CanvasNode_new h (Ref c) = Inr (length h, h @ [point a (Finite 0)])"
      by simp
  next
    assume "(h ! c) ''x'' = None \<and> (h ! c) ''y'' = Some (Number b)"
    with built [of "Finite 0" b]
    show "CanvasNode_new h (Ref c) = Inr (length h, h @ [point (Finite 0) b])"
      by simp
  next
    assume "(h ! c) ''x'' = None \<and> (h ! c) ''y'' = None"
    with built [of "Finite 0" "Finite 0"]
    show "CanvasNode_new h (Ref c) = Inr (length h, h @ [point (Finite 0) (Finite 0)])"
      by simp
  qed (rule query)+
qed

text \<open>\<open>new CanvasNode({ x: 10 })\<close> and \<open>new CanvasNode({ y: 20 })\<close>.\<close>

theorem constructor_partial_configuration_witness:
  "(0::nat) < length [[''x'' \<mapsto> Number (Finite 10)]]
   \<and> ([[''x'' \<mapsto> Number (Finite 10)]] ! 0) ''x'' = Some (Number (Finite 10))
   \<and> ([[''x'' \<mapsto> Number (Finite 10)]] ! 0) ''y'' = None
   \<and> CanvasNode_new [[''x'' \<mapsto> Number (Finite 10)]] (Ref 0)
        = Inr (1, [[''x'' \<mapsto> Number (Finite 10)], point (Finite 10) (Finite 0)])
   \<and> position_value [[''x'' \<mapsto> Number (Finite 10)], point (Finite 10) (Finite 0)] 1
        = Inr (point (Finite 10) (Finite 0))
   \<and> (0::nat) < length [[''y'' \<mapsto> Number (Finite 20)]]
   \<and> ([[''y'' \<mapsto> Number (Finite 20)]] ! 0) ''x'' = None
   \<and> ([[''y'' \<mapsto> Number (Finite 20)]] ! 0) ''y'' = Some (Number (Finite 20))
   \<and> CanvasNode_new [[''y'' \<mapsto> Number (Finite 20)]] (Ref 0)
        = Inr (1, [[''y'' \<mapsto> Number (Finite 20)], point (Finite 0) (Finite 20)])
   \<and> position_value [[''y'' \<mapsto> Number (Finite 20)], point (Finite 0) (Finite 20)] 1
        = Inr (point (Finite 0) (Finite 20))"
proof -
  have len_x: "(0::nat) < length [[''x'' \<mapsto> Number (Finite 10)]]"
    by simp
  have only_x: "([[''x'' \<mapsto> Number (Finite 10)]] ! 0) ''x'' = Some (Number (Finite 10))"
    "([[''x'' \<mapsto> Number (Finite 10)]] ! 0) ''y'' = None"
    by simp_all
  have len_y: "(0::nat) < length [[''y'' \<mapsto> Number (Finite 20)]]"
    by simp
  have only_y: "([[''y'' \<mapsto> Number (Finite 20)]] ! 0) ''x'' = None"
    "([[''y'' \<mapsto> Number (Finite 20)]] ! 0) ''y'' = Some (Number (Finite 20))"
    by simp_all
  from constructor_partial_configuration [OF len_x, of "Finite 10"] only_x
  have x: "CanvasNode_new [[''x'' \<mapsto> Number (Finite 10)]] (Ref 0)
        = Inr (1, [[''x'' \<mapsto> Number (Finite 10)], point (Finite 10) (Finite 0)])"
    "position_value [[''x'' \<mapsto> Number (Finite 10)], point (Finite 10) (Finite 0)] 1
        = Inr (point (Finite 10) (Finite 0))"
    by simp_all
  from constructor_partial_configuration [OF len_y, of _ "Finite 20"] only_y
  have y: "CanvasNode_new [[''y'' \<mapsto> Number (Finite 20)]] (Ref 0)
        = Inr (1, [[''y'' \<mapsto> Number (Finite 20)], point (Finite 0) (Finite 20)])"
    "position_value [[''y'' \<mapsto> Number (Finite 20)], point (Finite 0) (Finite 20)] 1
        = Inr (point (Finite 0) (Finite 20))"
    by simp_all
  from len_x only_x x len_y only_y y show ?thesis
    by blast
qed

subsection \<open>Numbers are stored as they are\<close>



subsection \<open>Moving a default node and constructing at a position\<close>

text \<open>
  C9. For all numbers \<open>a\<close> and \<open>b\<close>, a node built without a configuration and then
  moved to \<open>(a, b)\<close> has the same state as a node built with a configuration that
  holds \<open>a\<close> at \<open>x\<close> and \<open>b\<close> at \<open>y\<close>: both objects are \<open>{ x: a, y: b }\<close>, and
  the position queries on them return equal values.
\<close>

theorem default_then_move_equals_direct_construction:
  assumes "c < length h'"
    and "read_prop (h' ! c) ''x'' = Number a" and "read_prop (h' ! c) ''y'' = Number b"
  shows "\<exists>n1 h1 h2 n2 h3.
           CanvasNode_new h Undefined = Inr (n1, h1)
         \<and> CanvasNode_move h1 n1 (Number a) (Number b) = Inr h2
         \<and> CanvasNode_new h' (Ref c) = Inr (n2, h3)
         \<and> deref h2 n1 = Inr (point a b)
         \<and> deref h3 n2 = Inr (point a b)
         \<and> position_value h2 n1 = position_value h3 n2"
proof -
  let ?h1 = "h @ [point (Finite 0) (Finite 0)]"
  let ?h2 = "h @ [point a b]"
  let ?h3 = "h' @ [point a b]"
  have built: "CanvasNode_new h Undefined = Inr (length h, ?h1)"
    by (rule CanvasNode_new_Undefined)
  have "CanvasNode_move ?h1 (length h) (Number a) (Number b)
          = Inr (?h1[length h := (?h1 ! length h)(''x'' \<mapsto> Number a, ''y'' \<mapsto> Number b)])"
    by (rule CanvasNode_move_allocated) simp
  then have moved: "CanvasNode_move ?h1 (length h) (Number a) (Number b) = Inr ?h2"
    by (simp add: point_overwritten)
  have direct: "CanvasNode_new h' (Ref c) = Inr (length h', ?h3)"
    using assms by (rule CanvasNode_new_supplied)
  have o2: "deref ?h2 (length h) = Inr (point a b)"
    and o3: "deref ?h3 (length h') = Inr (point a b)"
    by (simp_all add: deref_def)
  have "position_value ?h2 (length h) = position_value ?h3 (length h')"
    by (simp add: position_value_new_node)
  with built moved direct o2 o3 show ?thesis
    by blast
qed

theorem default_then_move_equals_direct_construction_witness:
  "(0::nat) < length [point (Finite 10) (Finite 20)]
   \<and> CanvasNode_new [] Undefined = Inr (0, [point (Finite 0) (Finite 0)])
   \<and> CanvasNode_move [point (Finite 0) (Finite 0)] 0 (Number (Finite 10)) (Number (Finite 20))
        = Inr [point (Finite 10) (Finite 20)]
   \<and> CanvasNode_new [point (Finite 10) (Finite 20)] (Ref 0)
        = Inr (1, [point (Finite 10) (Finite 20), point (Finite 10) (Finite 20)])
   \<and> position_value [point (Finite 10) (Finite 20)] 0
        = position_value [point (Finite 10) (Finite 20), point (Finite 10) (Finite 20)] 1"
proof -
  have len: "(0::nat) < length [point (Finite 10) (Finite 20)]"
    by simp
  have built: "CanvasNode_new [] Undefined = Inr (0, [point (Finite 0) (Finite 0)])"
    using CanvasNode_new_Undefined [of "[]"] by simp
  have moved: "CanvasNode_move [point (Finite 0) (Finite 0)] 0 (Number (Finite 10)) (Number (Finite 20))
        = Inr [point (Finite 10) (Finite 20)]"
    by (simp add: CanvasNode_move_allocated point_overwritten)
  have direct: "CanvasNode_new [point (Finite 10) (Finite 20)] (Ref 0)
        = Inr (1, [point (Finite 10) (Finite 20), point (Finite 10) (Finite 20)])"
    using CanvasNode_new_supplied [of 0 "[point (Finite 10) (Finite 20)]" "Finite 10" "Finite 20"]
    by simp
  from default_then_move_equals_direct_construction
         [of 0 "[point (Finite 10) (Finite 20)]" "Finite 10" "Finite 20" "[]"]
       built moved direct
  have "position_value [point (Finite 10) (Finite 20)] 0
        = position_value [point (Finite 10) (Finite 20), point (Finite 10) (Finite 20)] 1"
    by simp
  with len built moved direct show ?thesis
    by blast
qed

subsection \<open>The position query\<close>

text \<open>
  C4. For every node, with \<open>vx\<close> and \<open>vy\<close> the values of its fields, the position
  query returns the object \<open>{ x: vx, y: vy }\<close>, a new one at each call, at an address
  the store did not have before and different from the node's. Writing any property
  of the returned object changes that object and neither the node nor what a later
  position query on the node returns, which is still \<open>{ x: vx, y: vy }\<close>; moving the
  node changes what a later query returns and not the object a query returned earlier,
  which is still \<open>{ x: vx, y: vy }\<close>.
\<close>

theorem position_snapshot_independent:
  assumes "this < length h"
  shows "\<exists>s h1 vx vy.
             get_field h this ''x'' = Inr vx \<and> get_field h this ''y'' = Inr vy
           \<and> CanvasNode_position h this = Inr (s, h1)
           \<and> deref h1 s = Inr [''x'' \<mapsto> vx, ''y'' \<mapsto> vy]
           \<and> length h \<le> s \<and> s \<noteq> this \<and> s < length h1
           \<and> (\<exists>s' h2. CanvasNode_position h1 this = Inr (s', h2) \<and> s' \<noteq> s \<and> s' \<noteq> this
                  \<and> deref h2 s' = Inr [''x'' \<mapsto> vx, ''y'' \<mapsto> vy])
           \<and> (\<forall>k v. \<exists>h2. set_field h1 s k v = Inr h2
                  \<and> deref h2 s = Inr ([''x'' \<mapsto> vx, ''y'' \<mapsto> vy](k \<mapsto> v))
                  \<and> deref h2 this = deref h this
                  \<and> position_value h2 this = position_value h this
                  \<and> position_value h2 this = Inr [''x'' \<mapsto> vx, ''y'' \<mapsto> vy])
           \<and> (\<forall>x y. \<exists>h2. CanvasNode_move h1 this x y = Inr h2
                  \<and> deref h2 s = deref h1 s
                  \<and> deref h2 s = Inr [''x'' \<mapsto> vx, ''y'' \<mapsto> vy]
                  \<and> position_value h2 this = Inr [''x'' \<mapsto> x, ''y'' \<mapsto> y])"
proof -
  let ?vx = "read_prop (h ! this) ''x''"
  let ?vy = "read_prop (h ! this) ''y''"
  let ?snap = "[''x'' \<mapsto> ?vx, ''y'' \<mapsto> ?vy]"
  let ?h1 = "h @ [?snap]"
  have this1: "this < length ?h1"
    using assms by simp
  have fields: "get_field h this ''x'' = Inr ?vx" "get_field h this ''y'' = Inr ?vy"
    using assms by (simp_all add: get_field_allocated)
  have query: "CanvasNode_position h this = Inr (length h, ?h1)"
    using assms by (rule CanvasNode_position_allocated)
  have returned: "deref ?h1 (length h) = Inr ?snap"
    by (simp add: deref_def)
  have fresh: "length h \<le> length h" "length h \<noteq> this" "length h < length ?h1"
    using assms by simp_all
  have again: "\<exists>s' h2. CanvasNode_position ?h1 this = Inr (s', h2)
      \<and> s' \<noteq> length h \<and> s' \<noteq> this \<and> deref h2 s' = Inr ?snap"
    using assms by (simp add: CanvasNode_position_allocated [OF this1] deref_def nth_append)
  have snapshot_written: "\<exists>h2. set_field ?h1 (length h) k v = Inr h2
      \<and> deref h2 (length h) = Inr (?snap(k \<mapsto> v))
      \<and> deref h2 this = deref h this
      \<and> position_value h2 this = position_value h this
      \<and> position_value h2 this = Inr ?snap" for k v
  proof -
    let ?h2 = "h @ [?snap(k \<mapsto> v)]"
    have "set_field ?h1 (length h) k v = Inr ?h2"
      by (simp add: set_field_def)
    moreover have "deref ?h2 (length h) = Inr (?snap(k \<mapsto> v))"
      by (simp add: deref_def)
    moreover have "deref ?h2 this = deref h this"
      using assms by (simp add: deref_def nth_append)
    moreover have "position_value ?h2 this = position_value h this"
      and "position_value ?h2 this = Inr ?snap"
      using assms by (simp_all add: position_value_allocated nth_append)
    ultimately show ?thesis
      by blast
  qed
  have node_moved: "\<exists>h2. CanvasNode_move ?h1 this x y = Inr h2
      \<and> deref h2 (length h) = deref ?h1 (length h)
      \<and> deref h2 (length h) = Inr ?snap
      \<and> position_value h2 this = Inr [''x'' \<mapsto> x, ''y'' \<mapsto> y]" for x y
    using assms
    by (simp add: CanvasNode_move_allocated [OF this1] deref_def position_value_allocated)
  from fields query returned fresh again snapshot_written node_moved show ?thesis
    by blast
qed

text \<open>
  A node at (10, 20): the object its query returned is \<open>{ x: 10, y: 20 }\<close>; that object
  is written at \<open>y\<close> and the node still answers \<open>{ x: 10, y: 20 }\<close>; the node is moved
  to (3, 4), answers \<open>{ x: 3, y: 4 }\<close>, and the object returned earlier is still
  \<open>{ x: 10, y: 20 }\<close>.
\<close>

theorem position_snapshot_independent_witness:
  "(0::nat) < length [point (Finite 10) (Finite 20)]
   \<and> CanvasNode_position [point (Finite 10) (Finite 20)] 0
        = Inr (1, [point (Finite 10) (Finite 20), point (Finite 10) (Finite 20)])
   \<and> deref [point (Finite 10) (Finite 20), point (Finite 10) (Finite 20)] 1
        = Inr (point (Finite 10) (Finite 20))
   \<and> set_field [point (Finite 10) (Finite 20), point (Finite 10) (Finite 20)] 1 ''y''
          (Number (Finite 99))
        = Inr [point (Finite 10) (Finite 20), point (Finite 10) (Finite 99)]
   \<and> position_value [point (Finite 10) (Finite 20), point (Finite 10) (Finite 99)] 0
        = Inr (point (Finite 10) (Finite 20))
   \<and> CanvasNode_move [point (Finite 10) (Finite 20), point (Finite 10) (Finite 20)] 0
          (Number (Finite 3)) (Number (Finite 4))
        = Inr [point (Finite 3) (Finite 4), point (Finite 10) (Finite 20)]
   \<and> deref [point (Finite 3) (Finite 4), point (Finite 10) (Finite 20)] 1
        = Inr (point (Finite 10) (Finite 20))
   \<and> position_value [point (Finite 3) (Finite 4), point (Finite 10) (Finite 20)] 0
        = Inr (point (Finite 3) (Finite 4))"
proof -
  let ?P = "point (Finite 10) (Finite 20)"
  let ?Q = "point (Finite 3) (Finite 4)"
  have len: "(0::nat) < length [?P]"
    by simp
  have fx: "get_field [?P] 0 ''x'' = Inr (Number (Finite 10))"
    and fy: "get_field [?P] 0 ''y'' = Inr (Number (Finite 20))"
    by (simp_all add: get_field_allocated)
  have query: "CanvasNode_position [?P] 0 = Inr (1, [?P, ?P])"
    using CanvasNode_position_point [of 0 "[?P]"] by simp
  have written: "set_field [?P, ?P] 1 ''y'' (Number (Finite 99))
        = Inr [?P, point (Finite 10) (Finite 99)]"
    by (simp add: set_field_def point_def)
  have moved: "CanvasNode_move [?P, ?P] 0 (Number (Finite 3)) (Number (Finite 4)) = Inr [?Q, ?P]"
    using CanvasNode_move_point [of 0 "[?P, ?P]"] by simp
  from position_snapshot_independent [OF len]
  obtain s h1 vx vy where "get_field [?P] 0 ''x'' = Inr vx" "get_field [?P] 0 ''y'' = Inr vy"
    and returned: "CanvasNode_position [?P] 0 = Inr (s, h1)"
    and snapshot: "deref h1 s = Inr [''x'' \<mapsto> vx, ''y'' \<mapsto> vy]"
    and after_write: "\<forall>k v. \<exists>h2. set_field h1 s k v = Inr h2
      \<and> deref h2 s = Inr ([''x'' \<mapsto> vx, ''y'' \<mapsto> vy](k \<mapsto> v))
      \<and> deref h2 0 = deref [?P] 0
      \<and> position_value h2 0 = position_value [?P] 0
      \<and> position_value h2 0 = Inr [''x'' \<mapsto> vx, ''y'' \<mapsto> vy]"
    and after_move: "\<forall>x y. \<exists>h2. CanvasNode_move h1 0 x y = Inr h2
      \<and> deref h2 s = deref h1 s
      \<and> deref h2 s = Inr [''x'' \<mapsto> vx, ''y'' \<mapsto> vy]
      \<and> position_value h2 0 = Inr [''x'' \<mapsto> x, ''y'' \<mapsto> y]"
    by blast
  with fx fy have vx: "vx = Number (Finite 10)" and vy: "vy = Number (Finite 20)"
    by simp_all
  from returned query have s: "s = 1" and h1: "h1 = [?P, ?P]"
    by simp_all
  from snapshot have snapshot_value: "deref [?P, ?P] 1 = Inr ?P"
    by (simp add: s h1 vx vy point_def)
  from after_write obtain h2 where "set_field h1 s ''y'' (Number (Finite 99)) = Inr h2"
    and "position_value h2 0 = Inr [''x'' \<mapsto> vx, ''y'' \<mapsto> vy]"
    by blast
  with written
  have node_kept: "position_value [?P, point (Finite 10) (Finite 99)] 0 = Inr ?P"
    by (simp add: s h1 vx vy point_def)
  from after_move obtain h3
    where "CanvasNode_move h1 0 (Number (Finite 3)) (Number (Finite 4)) = Inr h3"
    and "deref h3 s = Inr [''x'' \<mapsto> vx, ''y'' \<mapsto> vy]"
    and "position_value h3 0 = Inr [''x'' \<mapsto> Number (Finite 3), ''y'' \<mapsto> Number (Finite 4)]"
    by blast
  with moved
  have snapshot_kept: "deref [?Q, ?P] 1 = Inr ?P"
    and node_moved: "position_value [?Q, ?P] 0 = Inr ?Q"
    by (simp_all add: s h1 vx vy point_def)
  from len query snapshot_value written node_kept moved snapshot_kept node_moved
  show ?thesis
    by blast
qed

text \<open>
  C6. For every node the position query has no side effect: two calls in succession
  return objects that are equal by value, every object the store held before the calls
  is unchanged, and so are the fields \<open>x\<close> and \<open>y\<close> of the node.
\<close>

theorem position_query_no_side_effects:
  assumes "this < length h"
  shows "\<exists>s1 h1 s2 h2.
           CanvasNode_position h this = Inr (s1, h1)
         \<and> CanvasNode_position h1 this = Inr (s2, h2)
         \<and> deref h1 s1 = deref h2 s2
         \<and> deref h2 s1 = deref h2 s2
         \<and> take (length h) h1 = h \<and> take (length h) h2 = h
         \<and> get_field h1 this ''x'' = get_field h this ''x''
         \<and> get_field h1 this ''y'' = get_field h this ''y''
         \<and> get_field h2 this ''x'' = get_field h this ''x''
         \<and> get_field h2 this ''y'' = get_field h this ''y''"
proof -
  let ?snap = "[''x'' \<mapsto> read_prop (h ! this) ''x'', ''y'' \<mapsto> read_prop (h ! this) ''y'']"
  let ?h1 = "h @ [?snap]"
  let ?h2 = "?h1 @ [?snap]"
  have this1: "this < length ?h1"
    using assms by simp
  have node1: "?h1 ! this = h ! this"
    using assms by (simp add: nth_append)
  have first: "CanvasNode_position h this = Inr (length h, ?h1)"
    using assms by (rule CanvasNode_position_allocated)
  have second: "CanvasNode_position ?h1 this = Inr (length ?h1, ?h2)"
    using CanvasNode_position_allocated [OF this1] by (simp only: node1)
  have equal: "deref ?h1 (length h) = deref ?h2 (length ?h1)"
    "deref ?h2 (length h) = deref ?h2 (length ?h1)"
    by (simp_all add: deref_def nth_append)
  have kept: "take (length h) ?h1 = h" "take (length h) ?h2 = h"
    by simp_all
  have fields: "get_field ?h1 this k = get_field h this k"
    "get_field ?h2 this k = get_field h this k" for k
    using assms by (simp_all add: get_field_allocated nth_append)
  from first second equal kept fields show ?thesis
    by blast
qed

theorem position_query_no_side_effects_witness:
  "(0::nat) < length [point (Finite 10) (Finite 20)]
   \<and> CanvasNode_position [point (Finite 10) (Finite 20)] 0
        = Inr (1, [point (Finite 10) (Finite 20), point (Finite 10) (Finite 20)])
   \<and> CanvasNode_position [point (Finite 10) (Finite 20), point (Finite 10) (Finite 20)] 0
        = Inr (2, [point (Finite 10) (Finite 20), point (Finite 10) (Finite 20),
                   point (Finite 10) (Finite 20)])
   \<and> deref [point (Finite 10) (Finite 20), point (Finite 10) (Finite 20)] 1
        = deref [point (Finite 10) (Finite 20), point (Finite 10) (Finite 20),
                 point (Finite 10) (Finite 20)] 2
   \<and> get_field [point (Finite 10) (Finite 20), point (Finite 10) (Finite 20),
                 point (Finite 10) (Finite 20)] 0 ''x''
        = get_field [point (Finite 10) (Finite 20)] 0 ''x''
   \<and> get_field [point (Finite 10) (Finite 20), point (Finite 10) (Finite 20),
                 point (Finite 10) (Finite 20)] 0 ''y''
        = get_field [point (Finite 10) (Finite 20)] 0 ''y''"
proof -
  let ?P = "point (Finite 10) (Finite 20)"
  have len: "(0::nat) < length [?P]"
    by simp
  have first: "CanvasNode_position [?P] 0 = Inr (1, [?P, ?P])"
    using CanvasNode_position_point [of 0 "[?P]"] by simp
  have second: "CanvasNode_position [?P, ?P] 0 = Inr (2, [?P, ?P, ?P])"
    using CanvasNode_position_point [of 0 "[?P, ?P]"] by simp
  from position_query_no_side_effects [OF len] first second
  have "deref [?P, ?P] 1 = deref [?P, ?P, ?P] 2"
    and "get_field [?P, ?P, ?P] 0 ''x'' = get_field [?P] 0 ''x''"
    and "get_field [?P, ?P, ?P] 0 ''y'' = get_field [?P] 0 ''y''"
    by auto
  with len first second show ?thesis
    by blast
qed

subsection \<open>No operation fails\<close>

text \<open>
  C7. No operation fails on well-typed inputs: the constructor succeeds for every
  well-typed argument and returns a node of the store, and on a node of the store the
  position query and move, with any two numbers, succeed and leave the node in the
  store; there is no validation that could reject an input.
\<close>

theorem operations_never_fail:
  "(well_typed_position h position \<longrightarrow>
      (\<exists>node h'. CanvasNode_new h position = Inr (node, h') \<and> node < length h'))
   \<and> (this < length h \<longrightarrow>
      (\<exists>s h'. CanvasNode_position h this = Inr (s, h') \<and> this < length h' \<and> s < length h')
      \<and> (\<exists>h'. CanvasNode_move h this (Number a) (Number b) = Inr h' \<and> this < length h'))"
proof (intro conjI impI)
  assume "well_typed_position h position"
  then show "\<exists>node h'. CanvasNode_new h position = Inr (node, h') \<and> node < length h'"
  proof (cases rule: well_typed_position_cases)
    case absent
    then show ?thesis
      by (simp add: CanvasNode_new_Undefined)
  next
    case (supplied c a b)
    then show ?thesis
      by (simp add: CanvasNode_new_supplied)
  qed
next
  assume "this < length h"
  then show "\<exists>s h'. CanvasNode_position h this = Inr (s, h') \<and> this < length h' \<and> s < length h'"
    by (simp add: CanvasNode_position_allocated)
next
  assume "this < length h"
  then show "\<exists>h'. CanvasNode_move h this (Number a) (Number b) = Inr h' \<and> this < length h'"
    by (simp add: CanvasNode_move_allocated)
qed

theorem operations_never_fail_witness:
  "well_typed_position [point (Finite 10) (Finite 20)] (Ref 0)
   \<and> (\<exists>node h'. CanvasNode_new [point (Finite 10) (Finite 20)] (Ref 0) = Inr (node, h')
         \<and> node < length h')
   \<and> (0::nat) < length [point (Finite 10) (Finite 20)]
   \<and> (\<exists>s h'. CanvasNode_position [point (Finite 10) (Finite 20)] 0 = Inr (s, h')
         \<and> 0 < length h' \<and> s < length h')
   \<and> (\<exists>h'. CanvasNode_move [point (Finite 10) (Finite 20)] 0 (Number NaN) (Number (Finite 3))
         = Inr h' \<and> 0 < length h')"
proof -
  have wt: "well_typed_position [point (Finite 10) (Finite 20)] (Ref 0)"
    by (simp add: well_typed_position_def)
  have len: "(0::nat) < length [point (Finite 10) (Finite 20)]"
    by simp
  show ?thesis
    using wt len
      operations_never_fail [of "[point (Finite 10) (Finite 20)]" "Ref 0" 0 NaN "Finite 3"]
    by blast
qed

subsection \<open>Finite fields\<close>

text \<open>
  C5 as stated does not hold: the type number contains NaN and the infinities, and
  neither the constructor nor move rejects them. A default node has finite fields, and
  after \<open>move(NaN, Infinity)\<close> it has not; a node built with the well-typed
  configuration \<open>{ x: -Infinity, y: 0 }\<close> never had.
\<close>

theorem move_breaks_finite_fields:
  "CanvasNode_new [] Undefined = Inr (0, [point (Finite 0) (Finite 0)])
   \<and> finite_fields [point (Finite 0) (Finite 0)] 0
   \<and> CanvasNode_move [point (Finite 0) (Finite 0)] 0 (Number NaN) (Number Infinity)
        = Inr [point NaN Infinity]
   \<and> \<not> finite_fields [point NaN Infinity] 0
   \<and> well_typed_position [point NegInfinity (Finite 0)] (Ref 0)
   \<and> CanvasNode_new [point NegInfinity (Finite 0)] (Ref 0)
        = Inr (1, [point NegInfinity (Finite 0), point NegInfinity (Finite 0)])
   \<and> \<not> finite_fields [point NegInfinity (Finite 0), point NegInfinity (Finite 0)] 1"
proof -
  have "CanvasNode_new [] Undefined = Inr (0, [point (Finite 0) (Finite 0)])"
    using CanvasNode_new_Undefined [of "[]"] by simp
  moreover have "finite_fields [point (Finite 0) (Finite 0)] 0"
    by (simp add: finite_fields_def)
  moreover have "CanvasNode_move [point (Finite 0) (Finite 0)] 0 (Number NaN) (Number Infinity)
        = Inr [point NaN Infinity]"
    by (simp add: CanvasNode_move_allocated point_overwritten)
  moreover have "\<not> finite_fields [point NaN Infinity] 0"
    by (simp add: finite_fields_def)
  moreover have "well_typed_position [point NegInfinity (Finite 0)] (Ref 0)"
    by (simp add: well_typed_position_def)
  moreover have "CanvasNode_new [point NegInfinity (Finite 0)] (Ref 0)
        = Inr (1, [point NegInfinity (Finite 0), point NegInfinity (Finite 0)])"
    using CanvasNode_new_supplied [of 0 "[point NegInfinity (Finite 0)]" NegInfinity "Finite 0"]
    by simp
  moreover have "\<not> finite_fields [point NegInfinity (Finite 0), point NegInfinity (Finite 0)] 1"
    by (simp add: finite_fields_def)
  ultimately show ?thesis
    by blast
qed

text \<open>
  C5, as the code has it. The fields are finite as long as the numbers supplied are: a
  construction without a configuration, or with a configuration whose two numbers are
  finite, gives a node with finite fields; a move with two finite numbers gives finite
  fields; and the position query keeps them.
\<close>

theorem finite_fields_of_finite_inputs:
  "(well_typed_position h position
      \<and> (\<forall>c. position = Ref c \<longrightarrow> finite_number (read_prop (h ! c) ''x'')
                                  \<and> finite_number (read_prop (h ! c) ''y'')) \<longrightarrow>
      (\<exists>node h'. CanvasNode_new h position = Inr (node, h') \<and> finite_fields h' node))
   \<and> (this < length h \<and> isFinite a \<and> isFinite b \<longrightarrow>
      (\<exists>h'. CanvasNode_move h this (Number a) (Number b) = Inr h' \<and> finite_fields h' this))
   \<and> (finite_fields h this \<longrightarrow>
      (\<exists>s h'. CanvasNode_position h this = Inr (s, h') \<and> finite_fields h' this))"
proof (intro conjI impI)
  assume asm: "well_typed_position h position
      \<and> (\<forall>c. position = Ref c \<longrightarrow> finite_number (read_prop (h ! c) ''x'')
                                  \<and> finite_number (read_prop (h ! c) ''y''))"
  then have "well_typed_position h position" ..
  then show "\<exists>node h'. CanvasNode_new h position = Inr (node, h') \<and> finite_fields h' node"
  proof (cases rule: well_typed_position_cases)
    case absent
    then show ?thesis
      by (simp add: CanvasNode_new_Undefined finite_fields_def)
  next
    case (supplied c a b)
    with asm have "isFinite a" "isFinite b"
      by auto
    with supplied show ?thesis
      by (simp add: CanvasNode_new_supplied finite_fields_def)
  qed
next
  assume "this < length h \<and> isFinite a \<and> isFinite b"
  then show "\<exists>h'. CanvasNode_move h this (Number a) (Number b) = Inr h' \<and> finite_fields h' this"
    by (simp add: CanvasNode_move_allocated finite_fields_def)
next
  assume "finite_fields h this"
  then show "\<exists>s h'. CanvasNode_position h this = Inr (s, h') \<and> finite_fields h' this"
    by (simp add: finite_fields_def CanvasNode_position_allocated nth_append)
qed

theorem finite_fields_of_finite_inputs_witness:
  "well_typed_position [point (Finite 10) (Finite 20)] (Ref 0)
   \<and> finite_number (read_prop ([point (Finite 10) (Finite 20)] ! 0) ''x'')
   \<and> finite_number (read_prop ([point (Finite 10) (Finite 20)] ! 0) ''y'')
   \<and> (\<exists>node h'. CanvasNode_new [point (Finite 10) (Finite 20)] (Ref 0) = Inr (node, h')
         \<and> finite_fields h' node)
   \<and> (0::nat) < length [point (Finite 10) (Finite 20)] \<and> isFinite (Finite 3) \<and> isFinite NegZero
   \<and> (\<exists>h'. CanvasNode_move [point (Finite 10) (Finite 20)] 0 (Number (Finite 3)) (Number NegZero)
         = Inr h' \<and> finite_fields h' 0)
   \<and> finite_fields [point (Finite 10) (Finite 20)] 0
   \<and> (\<exists>s h'. CanvasNode_position [point (Finite 10) (Finite 20)] 0 = Inr (s, h')
         \<and> finite_fields h' 0)"
proof -
  have wt: "well_typed_position [point (Finite 10) (Finite 20)] (Ref 0)"
    by (simp add: well_typed_position_def)
  have fin: "finite_number (read_prop ([point (Finite 10) (Finite 20)] ! 0) ''x'')"
    "finite_number (read_prop ([point (Finite 10) (Finite 20)] ! 0) ''y'')"
    by simp_all
  have len: "(0::nat) < length [point (Finite 10) (Finite 20)]"
    by simp
  have args: "isFinite (Finite 3)" "isFinite NegZero"
    by simp_all
  have inv: "finite_fields [point (Finite 10) (Finite 20)] 0"
    by (simp add: finite_fields_def)
  show ?thesis
    using wt fin len args inv
      finite_fields_of_finite_inputs
        [of "[point (Finite 10) (Finite 20)]" "Ref 0" 0 "Finite 3" NegZero]
    by auto
qed

subsection \<open>Determinism\<close>

text \<open>
  C8. The class is deterministic: every sequence of constructions, moves and position
  queries that compiles runs to its end, and two runs of it with the same inputs, in
  any two stores, return the same query results and leave the nodes in the same
  states; when the two runs start in the same store they also end in the same store
  with the same bindings.
\<close>

theorem runs_agree:
  assumes "well_scoped 0 prog"
  shows "\<exists>obs hA nodesA hB nodesB.
           run h [] prog = Inr (obs, hA, nodesA)
         \<and> run h' [] prog = Inr (obs, hB, nodesB)
         \<and> node_states hA nodesA = node_states hB nodesB
         \<and> list_all (\<lambda>r. \<not> isl r) (node_states hA nodesA)
         \<and> (h = h' \<longrightarrow> hA = hB \<and> nodesA = nodesB)"
proof -
  have ok: "nodes_ok h []" "nodes_ok h' []"
    by (simp_all add: nodes_ok_def)
  from assms have scoped: "well_scoped (length ([] :: addr list)) prog"
    by simp
  from run_simulates [OF ok(1) scoped]
  obtain hA nodesA where
    A: "run h [] prog = Inr (fst (value_run [] prog), hA, nodesA)"
    and okA: "nodes_ok hA nodesA"
    and valsA: "map (\<lambda>n. hA ! n) nodesA = snd (value_run [] prog)"
    by auto
  from run_simulates [OF ok(2) scoped]
  obtain hB nodesB where
    B: "run h' [] prog = Inr (fst (value_run [] prog), hB, nodesB)"
    and okB: "nodes_ok hB nodesB"
    and valsB: "map (\<lambda>n. hB ! n) nodesB = snd (value_run [] prog)"
    by auto
  have same: "node_states hA nodesA = node_states hB nodesB"
    using valsA valsB by (simp add: node_states_ok [OF okA] node_states_ok [OF okB])
  have defined: "list_all (\<lambda>r. \<not> isl r) (node_states hA nodesA)"
    by (simp add: node_states_ok [OF okA] list_all_iff)
  have "hA = hB \<and> nodesA = nodesB" if "h = h'"
    using A B that by simp
  with A B same defined show ?thesis
    by blast
qed

text \<open>
  The first test of the source, run in the empty store and in a store that already
  holds an object: both runs observe \<open>{ x: 0, y: 0 }\<close> and then \<open>{ x: 10, y: 20 }\<close>, and
  both leave the node at \<open>{ x: 10, y: 20 }\<close>.
\<close>

theorem runs_agree_witness:
  "well_scoped 0 [New None, Query 0, Move 0 (Finite 10) (Finite 20), Query 0]
   \<and> run [] [] [New None, Query 0, Move 0 (Finite 10) (Finite 20), Query 0]
       = Inr ([point (Finite 0) (Finite 0), point (Finite 10) (Finite 20)],
              [point (Finite 10) (Finite 20), point (Finite 0) (Finite 0),
               point (Finite 10) (Finite 20)],
              [0])
   \<and> run [point NaN (Finite 4)] [] [New None, Query 0, Move 0 (Finite 10) (Finite 20), Query 0]
       = Inr ([point (Finite 0) (Finite 0), point (Finite 10) (Finite 20)],
              [point NaN (Finite 4), point (Finite 10) (Finite 20), point (Finite 0) (Finite 0),
               point (Finite 10) (Finite 20)],
              [1])
   \<and> node_states [point (Finite 10) (Finite 20), point (Finite 0) (Finite 0),
                   point (Finite 10) (Finite 20)] [0]
       = node_states [point NaN (Finite 4), point (Finite 10) (Finite 20),
                     point (Finite 0) (Finite 0), point (Finite 10) (Finite 20)] [1]
   \<and> node_states [point (Finite 10) (Finite 20), point (Finite 0) (Finite 0),
                   point (Finite 10) (Finite 20)] [0]
       = [Inr (point (Finite 10) (Finite 20))]"
proof -
  define prog where "prog = [New None, Query 0, Move 0 (Finite 10) (Finite 20), Query 0]"
  let ?O = "point (Finite 0) (Finite 0)"
  let ?P = "point (Finite 10) (Finite 20)"
  let ?J = "point NaN (Finite 4)"
  have scoped: "well_scoped 0 prog"
    by (simp add: prog_def)
  have runA: "run [] [] prog = Inr ([?O, ?P], [?P, ?O, ?P], [0])"
    by (simp add: prog_def CanvasNode_new_Undefined CanvasNode_position_point
        CanvasNode_move_point deref_def)
  have runB: "run [?J] [] prog = Inr ([?O, ?P], [?J, ?P, ?O, ?P], [1])"
    by (simp add: prog_def CanvasNode_new_Undefined CanvasNode_position_point
        CanvasNode_move_point deref_def)
  from runs_agree [OF scoped, of "[]" "[?J]"] runA runB
  have same: "node_states [?P, ?O, ?P] [0] = node_states [?J, ?P, ?O, ?P] [1]"
    by simp
  have state: "node_states [?P, ?O, ?P] [0] = [Inr ?P]"
    by (simp add: node_states_def deref_def)
  from scoped runA runB same state show ?thesis
    unfolding prog_def by blast
qed

end
